theory Spec2Isabelle
  imports Complex_Main
begin

section \<open>JavaScript values used by the forms and pages\<close>

text \<open>
  The front end is TypeScript. Its form fields, route parameters and identifiers are
  JavaScript values, and the code coerces them with the built-in \<^verbatim>\<open>Number(...)\<close>,
  tests them with \<^verbatim>\<open>isNaN\<close>, \<^verbatim>\<open>>=\<close> and \<^verbatim>\<open>!\<close>. A JavaScript number is
  \<open>NaN\<close>, one of the two infinities, or a finite binary64 number, kept as the rational
  it denotes. The two zeros are one value here: \<^verbatim>\<open>isNaN\<close>, \<^verbatim>\<open>>=\<close> and \<^verbatim>\<open>!\<close> do not
  tell them apart.
\<close>

datatype jsnum = NaN | PosInf | NegInf | Fin rat

datatype jsval = JUndefined | JNull | JBool bool | JNum jsnum | JStr string

text \<open>\<^verbatim>\<open>isNaN(num)\<close> on a number.\<close>

definition isNaN :: "jsnum \<Rightarrow> bool" where
  "isNaN n = (n = NaN)"

text \<open>\<^verbatim>\<open>a >= b\<close> on numbers: every comparison with \<open>NaN\<close> is false.\<close>

fun js_ge :: "jsnum \<Rightarrow> jsnum \<Rightarrow> bool" where
  "js_ge NaN b = False"
| "js_ge a NaN = False"
| "js_ge PosInf b = True"
| "js_ge NegInf NegInf = True"
| "js_ge NegInf b = False"
| "js_ge (Fin x) PosInf = False"
| "js_ge (Fin x) NegInf = True"
| "js_ge (Fin x) (Fin y) = (y \<le> x)"

text \<open>\<^verbatim>\<open>!n\<close> on a number: true exactly for \<open>NaN\<close> and zero.\<close>

definition js_not :: "jsnum \<Rightarrow> bool" where
  "js_not n = (n = NaN \<or> n = Fin 0)"

subsection \<open>String to number\<close>

text \<open>
  A string is the list of the bytes of its UTF-8 encoding. \<^verbatim>\<open>Number(s)\<close> on a string
  follows the StringNumericLiteral grammar of the language: white space and line
  terminators are trimmed at both ends, the empty string is 0, then comes an optionally
  signed decimal literal (digits, fraction, exponent, or \<^verbatim>\<open>Infinity\<close>) or an unsigned
  binary, octal or hexadecimal integer; anything else is \<open>NaN\<close>. The value the literal
  denotes is rounded to the nearest binary64 number, ties to even, as the engines do:
  beyond the largest finite number it is an infinity, and below half of the smallest
  positive number it is 0.
\<close>

text \<open>
  The white space and line terminator characters, in UTF-8: U+0009 to U+000D, U+0020,
  U+00A0, U+1680, U+2000 to U+200A, U+2028, U+2029, U+202F, U+205F, U+3000, U+FEFF.
\<close>

definition white_space :: "string list" where
  "white_space =
     [[CHR 0x09], [CHR 0x0A], [CHR 0x0B], [CHR 0x0C], [CHR 0x0D], [CHR 0x20],
      [CHR 0xC2, CHR 0xA0], [CHR 0xE1, CHR 0x9A, CHR 0x80],
      [CHR 0xE2, CHR 0x80, CHR 0x80], [CHR 0xE2, CHR 0x80, CHR 0x81],
      [CHR 0xE2, CHR 0x80, CHR 0x82], [CHR 0xE2, CHR 0x80, CHR 0x83],
      [CHR 0xE2, CHR 0x80, CHR 0x84], [CHR 0xE2, CHR 0x80, CHR 0x85],
      [CHR 0xE2, CHR 0x80, CHR 0x86], [CHR 0xE2, CHR 0x80, CHR 0x87],
      [CHR 0xE2, CHR 0x80, CHR 0x88], [CHR 0xE2, CHR 0x80, CHR 0x89],
      [CHR 0xE2, CHR 0x80, CHR 0x8A], [CHR 0xE2, CHR 0x80, CHR 0xA8],
      [CHR 0xE2, CHR 0x80, CHR 0xA9], [CHR 0xE2, CHR 0x80, CHR 0xAF],
      [CHR 0xE2, CHR 0x81, CHR 0x9F], [CHR 0xE3, CHR 0x80, CHR 0x80],
      [CHR 0xEF, CHR 0xBB, CHR 0xBF]]"

text \<open>One of the given sequences is removed from the front of the string, if one is there.\<close>

definition strip_one :: "string list \<Rightarrow> string \<Rightarrow> string" where
  "strip_one seqs s =
     (case find (\<lambda>w. take (length w) s = w) seqs of None \<Rightarrow> s | Some w \<Rightarrow> drop (length w) s)"

text \<open>Every leading sequence is removed: no more than \<open>length s\<close> removals are possible.\<close>

definition strip_leading :: "string list \<Rightarrow> string \<Rightarrow> string" where
  "strip_leading seqs s = (strip_one seqs ^^ length s) s"

definition trim :: "string \<Rightarrow> string" where
  "trim s = rev (strip_leading (map rev white_space) (rev (strip_leading white_space s)))"

definition dec_digit :: "char \<Rightarrow> int option" where
  "dec_digit = map_of
     [(CHR ''0'', 0), (CHR ''1'', 1), (CHR ''2'', 2), (CHR ''3'', 3), (CHR ''4'', 4),
      (CHR ''5'', 5), (CHR ''6'', 6), (CHR ''7'', 7), (CHR ''8'', 8), (CHR ''9'', 9)]"

definition hex_digit :: "char \<Rightarrow> int option" where
  "hex_digit c = (case dec_digit c of Some d \<Rightarrow> Some d | None \<Rightarrow> map_of
     [(CHR ''a'', 10), (CHR ''b'', 11), (CHR ''c'', 12), (CHR ''d'', 13), (CHR ''e'', 14),
      (CHR ''f'', 15), (CHR ''A'', 10), (CHR ''B'', 11), (CHR ''C'', 12), (CHR ''D'', 13),
      (CHR ''E'', 14), (CHR ''F'', 15)] c)"

definition digit_below :: "int \<Rightarrow> char \<Rightarrow> int option" where
  "digit_below b c = (case hex_digit c of Some d \<Rightarrow> (if d < b then Some d else None)
                      | None \<Rightarrow> None)"

definition is_dec :: "char \<Rightarrow> bool" where
  "is_dec c = (dec_digit c \<noteq> None)"

text \<open>The value of a non-empty run of digits in base \<open>b\<close>; \<open>None\<close> for anything else.\<close>

fun radix_acc :: "int \<Rightarrow> int \<Rightarrow> string \<Rightarrow> int option" where
  "radix_acc b acc [] = Some acc"
| "radix_acc b acc (c # cs) =
     (case digit_below b c of None \<Rightarrow> None | Some d \<Rightarrow> radix_acc b (acc * b + d) cs)"

definition radix_value :: "int \<Rightarrow> string \<Rightarrow> int option" where
  "radix_value b s = (if s = [] then None else radix_acc b 0 s)"

text \<open>The exponent part \<^verbatim>\<open>e\<close>, optional sign, digits; the empty rest is exponent 0.\<close>

definition ExponentPart :: "string \<Rightarrow> int option" where
  "ExponentPart s =
     (if s = [] then Some 0
      else if hd s = CHR ''e'' \<or> hd s = CHR ''E'' then
        (let t = tl s in
         if t \<noteq> [] \<and> hd t = CHR ''+'' then radix_value 10 (tl t)
         else if t \<noteq> [] \<and> hd t = CHR ''-'' then map_option uminus (radix_value 10 (tl t))
         else radix_value 10 t)
      else None)"

subsection \<open>Rounding to binary64\<close>

text \<open>The number of binary digits of a positive integer.\<close>

function bit_length :: "int \<Rightarrow> nat" where
  "bit_length n = (if n \<le> 0 then 0 else Suc (bit_length (n div 2)))"
  by pat_completeness auto
termination
  by (relation "measure nat") auto

declare bit_length.simps [simp del]

definition pow2 :: "int \<Rightarrow> rat" where
  "pow2 k = (if 0 \<le> k then 2 ^ nat k else 1 / 2 ^ nat (- k))"

text \<open>
  The binary64 number nearest to \<open>a / b\<close>, for \<open>a \<ge> 0\<close> and \<open>b > 0\<close>. With \<open>e\<close> the
  binary exponent of the quotient, not below that of the subnormal numbers, the numbers
  near it are the multiples of \<open>2 ^ (e - 52)\<close>; the quotient is rounded to the nearest
  multiple, a tie to the even one, and a result of \<open>2 ^ 1024\<close> or more is infinite.
\<close>

definition round_ratio :: "int \<Rightarrow> int \<Rightarrow> jsnum" where
  "round_ratio a b =
     (if a = 0 then Fin 0
      else
        let e0 = int (bit_length a) - int (bit_length b);
            lower = (if 0 \<le> e0 then b * 2 ^ nat e0 \<le> a else b \<le> a * 2 ^ nat (- e0));
            e = max (if lower then e0 else e0 - 1) (- 1022);
            k = e - 52;
            n = (if 0 \<le> k then a else a * 2 ^ nat (- k));
            d = (if 0 \<le> k then b * 2 ^ nat k else b);
            m = n div d;
            r = n mod d;
            m' = (if 2 * r < d then m else if d < 2 * r then m + 1
                  else if even m then m else m + 1)
        in if 1023 < e \<or> (e = 1023 \<and> m' = 2 ^ 53) then PosInf
           else Fin (of_int m' * pow2 k))"

text \<open>The digits \<open>m\<close> scaled by the decimal exponent \<open>k\<close>, rounded.\<close>

definition round_decimal :: "int \<Rightarrow> int \<Rightarrow> jsnum" where
  "round_decimal m k =
     (if 0 \<le> k then round_ratio (m * 10 ^ nat k) 1 else round_ratio m (10 ^ nat (- k)))"

subsection \<open>The numeric literals\<close>

definition StrUnsignedDecimalLiteral :: "string \<Rightarrow> jsnum" where
  "StrUnsignedDecimalLiteral s =
     (if s = ''Infinity'' then PosInf
      else
        let ip = takeWhile is_dec s;
            r1 = dropWhile is_dec s;
            has_dot = (r1 \<noteq> [] \<and> hd r1 = CHR ''.'');
            fp = (if has_dot then takeWhile is_dec (tl r1) else []);
            r2 = (if has_dot then dropWhile is_dec (tl r1) else r1)
        in if ip = [] \<and> fp = [] then NaN
           else (case (radix_value 10 (ip @ fp), ExponentPart r2) of
                   (Some m, Some e) \<Rightarrow> round_decimal m (e - int (length fp))
                 | _ \<Rightarrow> NaN))"

definition js_neg :: "jsnum \<Rightarrow> jsnum" where
  "js_neg n = (case n of NaN \<Rightarrow> NaN | PosInf \<Rightarrow> NegInf | NegInf \<Rightarrow> PosInf
               | Fin x \<Rightarrow> Fin (- x))"

definition radix_prefix :: "string \<Rightarrow> int option" where
  "radix_prefix t =
     (if length t < 2 \<or> hd t \<noteq> CHR ''0'' then None
      else map_of [(CHR ''x'', 16), (CHR ''X'', 16), (CHR ''o'', 8), (CHR ''O'', 8),
                   (CHR ''b'', 2), (CHR ''B'', 2)] (hd (tl t)))"

definition StringToNumber :: "string \<Rightarrow> jsnum" where
  "StringToNumber s =
     (let t = trim s in
      if t = [] then Fin 0
      else case radix_prefix t of
        Some b \<Rightarrow> (case radix_value b (drop 2 t) of None \<Rightarrow> NaN | Some n \<Rightarrow> round_ratio n 1)
      | None \<Rightarrow>
          if hd t = CHR ''+'' then StrUnsignedDecimalLiteral (tl t)
          else if hd t = CHR ''-'' then js_neg (StrUnsignedDecimalLiteral (tl t))
          else StrUnsignedDecimalLiteral t)"

text \<open>\<^verbatim>\<open>Number(val)\<close> on the values a form field or a route parameter can hold.\<close>

fun Number :: "jsval \<Rightarrow> jsnum" where
  "Number JUndefined = NaN"
| "Number JNull = Fin 0"
| "Number (JBool b) = Fin (if b then 1 else 0)"
| "Number (JNum n) = n"
| "Number (JStr s) = StringToNumber s"

section \<open>Data model (lib/types.ts)\<close>

text \<open>
  \<^verbatim>\<open>Question\<close> and \<^verbatim>\<open>Exam\<close> as the backend returns them. An optional property is an
  \<open>option\<close>. The instructions of a question are declared an optional string; the
  backend stores them as a column that may be null, so the value that arrives is absent,
  null or a string. Field names carry a prefix because a record field is a global
  constant.
\<close>

datatype optional_string = Absent | Null | Str string

record Question =
  q_id :: "jsnum option"
  q_text :: string
  q_ideal_answer :: string
  q_instructions :: optional_string
  q_mark :: jsnum
  q_created_at :: "string option"
  q_updated_at :: "string option"

record Exam =
  e_id :: jsnum
  e_title :: string
  e_subject :: string
  e_instructions :: string
  e_questions :: "Question list"
  e_created_at :: string
  e_updated_at :: string

text \<open>
  The values a form holds while it is edited (the input of the schema). The mark is
  whatever the input element or the default value put there (\<^verbatim>\<open>z.any()\<close>); the
  identifier and the timestamps are present only when the form was filled from a
  fetched exam.
\<close>

record QuestionValues =
  vq_id :: "jsnum option"
  vq_text :: string
  vq_ideal_answer :: string
  vq_instructions :: optional_string
  vq_mark :: jsval
  vq_created_at :: "string option"
  vq_updated_at :: "string option"

record FormValues =
  v_title :: string
  v_subject :: string
  v_instructions :: string
  v_questions :: "QuestionValues list"

text \<open>
  \<^verbatim>\<open>ExamFormData\<close>, the output of a schema (\<^verbatim>\<open>z.infer\<close>): the mark is a number after
  the transform, and keys the schema does not name are stripped.
\<close>

record QuestionData =
  dq_id :: "jsnum option"
  dq_text :: string
  dq_ideal_answer :: string
  dq_instructions :: optional_string
  dq_mark :: jsnum

record ExamFormData =
  d_title :: string
  d_subject :: string
  d_instructions :: string
  d_questions :: "QuestionData list"

section \<open>Schema validation (zod)\<close>

text \<open>
  An issue is the path of the field it belongs to and its message. An object schema
  checks every key and collects all issues; an array schema reports its length issue and
  the issues of every element.
\<close>

datatype qfield = F_id | F_text | F_ideal_answer | F_instructions | F_mark

datatype path = P_title | P_subject | P_instructions | P_questions | P_question nat qfield

type_synonym issue = "path \<times> string"

text \<open>\<^verbatim>\<open>z.string().min(n, msg)\<close> at path \<open>p\<close>.\<close>

definition z_string_min :: "nat \<Rightarrow> string \<Rightarrow> path \<Rightarrow> string \<Rightarrow> issue list" where
  "z_string_min n msg p s = (if length s < n then [(p, msg)] else [])"

text \<open>
  \<^verbatim>\<open>z.number().optional()\<close> at path \<open>p\<close>: an absent value passes, and \<open>NaN\<close>
  is refused as not a number. (An identifier read from a JSON response is finite.)
\<close>

definition z_number_optional :: "path \<Rightarrow> jsnum option \<Rightarrow> issue list" where
  "z_number_optional p v =
     (case v of None \<Rightarrow> []
      | Some n \<Rightarrow> if n = NaN then [(p, ''Expected number, received nan'')] else [])"

text \<open>\<^verbatim>\<open>z.string().optional()\<close> at path \<open>p\<close>: an absent value and a string pass, null does not.\<close>

definition z_string_optional :: "path \<Rightarrow> optional_string \<Rightarrow> issue list" where
  "z_string_optional p v =
     (case v of Null \<Rightarrow> [(p, ''Expected string, received null'')] | _ \<Rightarrow> [])"

text \<open>\<^verbatim>\<open>z.array(element).min(n, msg)\<close> at path \<open>p\<close>, the element schema given its index.\<close>

definition z_array_min ::
  "nat \<Rightarrow> string \<Rightarrow> path \<Rightarrow> (nat \<Rightarrow> 'a \<Rightarrow> issue list) \<Rightarrow> 'a list \<Rightarrow> issue list" where
  "z_array_min n msg p element xs =
     (if length xs < n then [(p, msg)] else [])
     @ concat (map (\<lambda>(i, x). element i x) (enumerate 0 xs))"

subsection \<open>The creation form's schema (ExamCreation)\<close>

text \<open>The refinement of the mark: \<^verbatim>\<open>const num = Number(val); return !isNaN(num) && num >= 1\<close>.\<close>

definition mark_refine :: "jsval \<Rightarrow> bool" where
  "mark_refine val = (let num = Number val in \<not> isNaN num \<and> js_ge num (Fin 1))"

definition ExamCreation_question_issues :: "nat \<Rightarrow> QuestionValues \<Rightarrow> issue list" where
  "ExamCreation_question_issues i q =
     z_string_min 1 ''Question text is required'' (P_question i F_text) (vq_text q)
     @ z_string_min 1 ''Ideal answer is required'' (P_question i F_ideal_answer) (vq_ideal_answer q)
     @ z_string_optional (P_question i F_instructions) (vq_instructions q)
     @ (if mark_refine (vq_mark q) then []
        else [(P_question i F_mark, ''Mark must be a number and at least 1'')])"

definition ExamCreation_issues :: "FormValues \<Rightarrow> issue list" where
  "ExamCreation_issues v =
     z_string_min 1 ''Title is required'' P_title (v_title v)
     @ z_string_min 1 ''Subject is required'' P_subject (v_subject v)
     @ z_string_min 1 ''Instructions are required'' P_instructions (v_instructions v)
     @ z_array_min 1 ''You must add at least one question.'' P_questions
         ExamCreation_question_issues (v_questions v)"

definition ExamCreation_question_output :: "QuestionValues \<Rightarrow> QuestionData" where
  "ExamCreation_question_output q =
     \<lparr>dq_id = None, dq_text = vq_text q, dq_ideal_answer = vq_ideal_answer q,
      dq_instructions = vq_instructions q, dq_mark = Number (vq_mark q)\<rparr>"

definition ExamCreation_output :: "FormValues \<Rightarrow> ExamFormData" where
  "ExamCreation_output v =
     \<lparr>d_title = v_title v, d_subject = v_subject v, d_instructions = v_instructions v,
      d_questions = map ExamCreation_question_output (v_questions v)\<rparr>"

definition ExamCreation_examFormSchema :: "FormValues \<Rightarrow> issue list + ExamFormData" where
  "ExamCreation_examFormSchema v =
     (if ExamCreation_issues v = [] then Inr (ExamCreation_output v)
      else Inl (ExamCreation_issues v))"

subsection \<open>The edit form's schema (ExamEditForm)\<close>

text \<open>
  The mark is \<^verbatim>\<open>z.any().transform(val => Number(val))\<close>: there is no refinement, so the
  mark raises no issue. The identifier is \<^verbatim>\<open>z.number().optional()\<close> and is kept.
\<close>

definition ExamEditForm_question_issues :: "nat \<Rightarrow> QuestionValues \<Rightarrow> issue list" where
  "ExamEditForm_question_issues i q =
     z_number_optional (P_question i F_id) (vq_id q)
     @ z_string_min 1 ''Question text is required'' (P_question i F_text) (vq_text q)
     @ z_string_min 1 ''Ideal answer is required'' (P_question i F_ideal_answer) (vq_ideal_answer q)
     @ z_string_optional (P_question i F_instructions) (vq_instructions q)"

definition ExamEditForm_issues :: "FormValues \<Rightarrow> issue list" where
  "ExamEditForm_issues v =
     z_string_min 1 ''Title is required'' P_title (v_title v)
     @ z_string_min 1 ''Subject is required'' P_subject (v_subject v)
     @ z_string_min 1 ''Instructions are required'' P_instructions (v_instructions v)
     @ z_array_min 1 ''You must add at least one question.'' P_questions
         ExamEditForm_question_issues (v_questions v)"

definition ExamEditForm_question_output :: "QuestionValues \<Rightarrow> QuestionData" where
  "ExamEditForm_question_output q =
     \<lparr>dq_id = vq_id q, dq_text = vq_text q, dq_ideal_answer = vq_ideal_answer q,
      dq_instructions = vq_instructions q, dq_mark = Number (vq_mark q)\<rparr>"

definition ExamEditForm_output :: "FormValues \<Rightarrow> ExamFormData" where
  "ExamEditForm_output v =
     \<lparr>d_title = v_title v, d_subject = v_subject v, d_instructions = v_instructions v,
      d_questions = map ExamEditForm_question_output (v_questions v)\<rparr>"

definition ExamEditForm_examFormSchema :: "FormValues \<Rightarrow> issue list + ExamFormData" where
  "ExamEditForm_examFormSchema v =
     (if ExamEditForm_issues v = [] then Inr (ExamEditForm_output v)
      else Inl (ExamEditForm_issues v))"

section \<open>API client (lib/redux/api)\<close>

text \<open>
  An endpoint of the API slice together with the argument it is called with: the exam
  endpoints of \<^verbatim>\<open>examApi\<close> (create, list, retrieve, update, delete) and the upload
  endpoint of \<^verbatim>\<open>submissionApi\<close>. The form data of a create or update request is the
  output of the form's schema.
\<close>

record File =
  file_name :: string
  file_type :: string

datatype form_entry = EntryText string | EntryFile File

type_synonym FormData = "(string \<times> form_entry) list"

datatype endpoint_call =
    createExam ExamFormData
  | getExams
  | getExamById jsnum
  | updateExam jsnum ExamFormData
  | deleteExam jsnum
  | uploadPdf FormData

text \<open>
  A cache tag is a bare type (\<^verbatim>\<open>'Exam'\<close>) or a type with an id
  (\<^verbatim>\<open>{ type: 'Exam', id }\<close>), the id a number or a string.
\<close>

datatype tag_id = NumId jsnum | StrId string

datatype tag_description = TagType string | Tag string tag_id

text \<open>
  The tag types the base slice declares (apiSlice). The rule that decides which cached
  results a mutation invalidates, below, looks at the tags only, not at this list.
\<close>

definition tagTypes :: "string list" where
  "tagTypes = [''FileUpload'']"

text \<open>\<^verbatim>\<open>invalidatesTags\<close> of each endpoint; a query endpoint declares none.\<close>

fun invalidatesTags :: "endpoint_call \<Rightarrow> tag_description list" where
  "invalidatesTags (createExam examData) = [TagType ''Exam'']"
| "invalidatesTags (updateExam ident examData) =
     [Tag ''Exam'' (NumId ident), Tag ''Exam'' (StrId ''LIST'')]"
| "invalidatesTags (deleteExam ident) = [Tag ''Exam'' (StrId ''LIST'')]"
| "invalidatesTags (uploadPdf formData) = [TagType ''FileUpload'']"
| "invalidatesTags getExams = []"
| "invalidatesTags (getExamById ident) = []"

text \<open>\<^verbatim>\<open>providesTags\<close> of the two queries; \<open>None\<close> is a list query without a result.\<close>

definition getExams_providesTags :: "Exam list option \<Rightarrow> tag_description list" where
  "getExams_providesTags result =
     (case result of
        Some exams \<Rightarrow> map (\<lambda>e. Tag ''Exam'' (NumId (e_id e))) exams @ [Tag ''Exam'' (StrId ''LIST'')]
      | None \<Rightarrow> [Tag ''Exam'' (StrId ''LIST'')])"

definition getExamById_providesTags :: "jsnum \<Rightarrow> tag_description list" where
  "getExamById_providesTags ident = [Tag ''Exam'' (NumId ident)]"

text \<open>
  The cache library's rule, as it documents it: an invalidated bare type matches every
  provided tag of that type, an invalidated tag with an id matches the provided tag of
  the same type and id. A cached query result is refetched when one of the tags it
  provides is matched by one of the tags a finished mutation invalidates.
\<close>

fun tag_matches :: "tag_description \<Rightarrow> tag_description \<Rightarrow> bool" where
  "tag_matches (TagType t) (TagType u) = (t = u)"
| "tag_matches (TagType t) (Tag u j) = (t = u)"
| "tag_matches (Tag t i) (Tag u j) = (t = u \<and> i = j)"
| "tag_matches (Tag t i) (TagType u) = False"

definition invalidated_by :: "tag_description list \<Rightarrow> endpoint_call \<Rightarrow> bool" where
  "invalidated_by provided mutation =
     list_ex (\<lambda>p. list_ex (\<lambda>i. tag_matches i p) (invalidatesTags mutation)) provided"

text \<open>The three exam mutations.\<close>

fun is_exam_mutation :: "endpoint_call \<Rightarrow> bool" where
  "is_exam_mutation (createExam examData) = True"
| "is_exam_mutation (updateExam ident examData) = True"
| "is_exam_mutation (deleteExam ident) = True"
| "is_exam_mutation c = False"

section \<open>Pages that fetch one exam (exams/[id] and exams/[id]/edit)\<close>

text \<open>
  The route parameter is a string or absent. The query hook issues no request while
  \<^verbatim>\<open>skip\<close> is true; otherwise it issues the request for its argument.
\<close>

definition param_value :: "string option \<Rightarrow> jsval" where
  "param_value p = (case p of None \<Rightarrow> JUndefined | Some s \<Rightarrow> JStr s)"

definition useGetExamByIdQuery :: "jsnum \<Rightarrow> bool \<Rightarrow> endpoint_call option" where
  "useGetExamByIdQuery arg skip = (if skip then None else Some (getExamById arg))"

definition ExamDetailPage_query :: "string option \<Rightarrow> endpoint_call option" where
  "ExamDetailPage_query params_id =
     (let ident = Number (param_value params_id)
      in useGetExamByIdQuery ident (js_not ident))"

definition EditExamPage_query :: "string option \<Rightarrow> endpoint_call option" where
  "EditExamPage_query params_id =
     (let examId = Number (param_value params_id)
      in useGetExamByIdQuery examId (js_not examId))"

section \<open>The form controller (ExamCreation and ExamEditForm)\<close>

text \<open>
  Both components hold the wizard step and a form: its values, the errors shown, the
  requests sent so far, and whether the completion callback has been called. The two
  components have the same handlers; they differ in the schema behind the resolver and
  in the request \<^verbatim>\<open>onSubmit\<close> sends. Every handler runs to completion before the next
  event is handled.
\<close>

type_synonym resolver = "FormValues \<Rightarrow> issue list + ExamFormData"

record FormState =
  step :: int
  formValues :: FormValues
  formErrors :: "issue list"
  sent :: "endpoint_call list"
  completed :: bool

definition resolver_errors :: "resolver \<Rightarrow> FormValues \<Rightarrow> issue list" where
  "resolver_errors r v = (case r v of Inl es \<Rightarrow> es | Inr d \<Rightarrow> [])"

text \<open>
  \<^verbatim>\<open>trigger(names)\<close> of the form library: the resolver runs on all values. Without
  names the errors are replaced and the result says whether there are none; with names
  only the errors of the named fields are replaced, and the result says whether none of
  the named fields has one.
\<close>

definition trigger :: "resolver \<Rightarrow> path list option \<Rightarrow> FormState \<Rightarrow> bool \<times> FormState" where
  "trigger r names st =
     (let errs = resolver_errors r (formValues st) in
      case names of
        None \<Rightarrow> (errs = [], st\<lparr>formErrors := errs\<rparr>)
      | Some ns \<Rightarrow>
          (filter (\<lambda>e. fst e \<in> set ns) errs = [],
           st\<lparr>formErrors := filter (\<lambda>e. fst e \<notin> set ns) (formErrors st)
                               @ filter (\<lambda>e. fst e \<in> set ns) errs\<rparr>))"

definition handleNext :: "resolver \<Rightarrow> FormState \<Rightarrow> FormState" where
  "handleNext r st =
     (let (isValid, st') =
            trigger r (if step st = 1 then Some [P_title, P_subject, P_instructions] else None) st
      in if isValid then st'\<lparr>step := step st' + 1\<rparr> else st')"

definition handleBack :: "FormState \<Rightarrow> FormState" where
  "handleBack st = st\<lparr>step := step st - 1\<rparr>"

text \<open>
  \<^verbatim>\<open>handleSubmit(onSubmit)\<close> of the form library: the resolver runs on all values; with
  errors they are shown and \<^verbatim>\<open>onSubmit\<close> is not called, otherwise \<^verbatim>\<open>onSubmit\<close> gets
  the schema's output.
\<close>

definition handleSubmit ::
  "resolver \<Rightarrow> (ExamFormData \<Rightarrow> FormState \<Rightarrow> FormState) \<Rightarrow> FormState \<Rightarrow> FormState" where
  "handleSubmit r onSubmit st =
     (case r (formValues st) of
        Inl es \<Rightarrow> st\<lparr>formErrors := es\<rparr>
      | Inr d \<Rightarrow> onSubmit d (st\<lparr>formErrors := []\<rparr>))"

text \<open>
  \<^verbatim>\<open>onSubmit\<close>: the request is sent; \<open>ok\<close> says whether it succeeds, and only then the
  completion callback runs.
\<close>

definition onSubmit :: "(ExamFormData \<Rightarrow> endpoint_call) \<Rightarrow> bool \<Rightarrow> ExamFormData \<Rightarrow> FormState \<Rightarrow> FormState" where
  "onSubmit request ok d st =
     (let st' = st\<lparr>sent := sent st @ [request d]\<rparr>
      in if ok then st'\<lparr>completed := True\<rparr> else st')"

subsection \<open>The field array of questions (useFieldArray, QuestionsStep)\<close>

text \<open>The question the \<^verbatim>\<open>Add Question\<close> button appends, also the creation form's default.\<close>

definition new_question :: QuestionValues where
  "new_question =
     \<lparr>vq_id = None, vq_text = '''', vq_ideal_answer = '''', vq_instructions = Str '''',
      vq_mark = JNum (Fin 10), vq_created_at = None, vq_updated_at = None\<rparr>"

definition append_question :: "QuestionValues \<Rightarrow> FormValues \<Rightarrow> FormValues" where
  "append_question q v = v\<lparr>v_questions := v_questions v @ [q]\<rparr>"

text \<open>\<^verbatim>\<open>remove(index)\<close> deletes the entry at the index, whatever the length that remains.\<close>

definition remove_question :: "nat \<Rightarrow> FormValues \<Rightarrow> FormValues" where
  "remove_question i v = v\<lparr>v_questions := take i (v_questions v) @ drop (Suc i) (v_questions v)\<rparr>"

text \<open>A registered input writes the string typed into its field of question \<open>i\<close>.\<close>

definition set_question :: "nat \<Rightarrow> (QuestionValues \<Rightarrow> QuestionValues) \<Rightarrow> FormValues \<Rightarrow> FormValues" where
  "set_question i f v =
     (if i < length (v_questions v)
      then v\<lparr>v_questions := (v_questions v)[i := f (v_questions v ! i)]\<rparr>
      else v)"

subsection \<open>User events and what is rendered\<close>

datatype event =
    ClickNext
  | ClickBack
  | ClickSubmit bool
  | ClickAddQuestion
  | ClickRemove nat
  | TypeTitle string
  | TypeSubject string
  | TypeInstructions string
  | TypeQuestionText nat string
  | TypeIdealAnswer nat string
  | TypeMark nat string

text \<open>
  The controls on screen: \<^verbatim>\<open>Back\<close> when \<^verbatim>\<open>step > 1\<close>, \<^verbatim>\<open>Next\<close> when
  \<^verbatim>\<open>step < 3\<close> and the submit button otherwise, the details inputs at step 1, the
  question cards at step 2. The argument of \<open>ClickSubmit\<close> is whether the request it
  may send succeeds. After the completion callback the component is gone.
\<close>

fun rendered :: "FormState \<Rightarrow> event \<Rightarrow> bool" where
  "rendered st ClickNext = (\<not> completed st \<and> step st < 3)"
| "rendered st ClickBack = (\<not> completed st \<and> step st > 1)"
| "rendered st (ClickSubmit ok) = (\<not> completed st \<and> \<not> step st < 3)"
| "rendered st ClickAddQuestion = (\<not> completed st \<and> step st = 2)"
| "rendered st (ClickRemove i) =
     (\<not> completed st \<and> step st = 2 \<and> i < length (v_questions (formValues st)))"
| "rendered st (TypeTitle s) = (\<not> completed st \<and> step st = 1)"
| "rendered st (TypeSubject s) = (\<not> completed st \<and> step st = 1)"
| "rendered st (TypeInstructions s) = (\<not> completed st \<and> step st = 1)"
| "rendered st (TypeQuestionText i s) =
     (\<not> completed st \<and> step st = 2 \<and> i < length (v_questions (formValues st)))"
| "rendered st (TypeIdealAnswer i s) =
     (\<not> completed st \<and> step st = 2 \<and> i < length (v_questions (formValues st)))"
| "rendered st (TypeMark i s) =
     (\<not> completed st \<and> step st = 2 \<and> i < length (v_questions (formValues st)))"

fun handle :: "resolver \<Rightarrow> (ExamFormData \<Rightarrow> endpoint_call) \<Rightarrow> event \<Rightarrow> FormState \<Rightarrow> FormState" where
  "handle r request ClickNext st = handleNext r st"
| "handle r request ClickBack st = handleBack st"
| "handle r request (ClickSubmit ok) st = handleSubmit r (onSubmit request ok) st"
| "handle r request ClickAddQuestion st =
     st\<lparr>formValues := append_question new_question (formValues st)\<rparr>"
| "handle r request (ClickRemove i) st = st\<lparr>formValues := remove_question i (formValues st)\<rparr>"
| "handle r request (TypeTitle s) st = st\<lparr>formValues := (formValues st)\<lparr>v_title := s\<rparr>\<rparr>"
| "handle r request (TypeSubject s) st = st\<lparr>formValues := (formValues st)\<lparr>v_subject := s\<rparr>\<rparr>"
| "handle r request (TypeInstructions s) st =
     st\<lparr>formValues := (formValues st)\<lparr>v_instructions := s\<rparr>\<rparr>"
| "handle r request (TypeQuestionText i s) st =
     st\<lparr>formValues := set_question i (\<lambda>q. q\<lparr>vq_text := s\<rparr>) (formValues st)\<rparr>"
| "handle r request (TypeIdealAnswer i s) st =
     st\<lparr>formValues := set_question i (\<lambda>q. q\<lparr>vq_ideal_answer := s\<rparr>) (formValues st)\<rparr>"
| "handle r request (TypeMark i s) st =
     st\<lparr>formValues := set_question i (\<lambda>q. q\<lparr>vq_mark := JStr s\<rparr>) (formValues st)\<rparr>"

text \<open>An event changes the state only through a control that is on screen.\<close>

definition fire :: "resolver \<Rightarrow> (ExamFormData \<Rightarrow> endpoint_call) \<Rightarrow> FormState \<Rightarrow> event \<Rightarrow> FormState" where
  "fire r request st ev = (if rendered st ev then handle r request ev st else st)"

subsection \<open>ExamCreation\<close>

definition ExamCreation_init :: FormState where
  "ExamCreation_init =
     \<lparr>step = 1,
      formValues = \<lparr>v_title = '''', v_subject = '''', v_instructions = '''',
                    v_questions = [new_question]\<rparr>,
      formErrors = [], sent = [], completed = False\<rparr>"

definition ExamCreation_handleNext :: "FormState \<Rightarrow> FormState" where
  "ExamCreation_handleNext = handleNext ExamCreation_examFormSchema"

definition ExamCreation_fire :: "FormState \<Rightarrow> event \<Rightarrow> FormState" where
  "ExamCreation_fire = fire ExamCreation_examFormSchema createExam"

text \<open>The states the creation wizard can be in after any sequence of user events.\<close>

inductive ExamCreation_reachable :: "FormState \<Rightarrow> bool" where
  reach_init: "ExamCreation_reachable ExamCreation_init"
| reach_fire: "ExamCreation_reachable st \<Longrightarrow> ExamCreation_reachable (ExamCreation_fire st ev)"

subsection \<open>ExamEditForm\<close>

text \<open>The form is filled from the fetched exam: \<^verbatim>\<open>questions: exam.questions\<close>.\<close>

definition question_values :: "Question \<Rightarrow> QuestionValues" where
  "question_values q =
     \<lparr>vq_id = q_id q, vq_text = q_text q, vq_ideal_answer = q_ideal_answer q,
      vq_instructions = q_instructions q, vq_mark = JNum (q_mark q),
      vq_created_at = q_created_at q, vq_updated_at = q_updated_at q\<rparr>"

definition ExamEditForm_defaultValues :: "Exam \<Rightarrow> FormValues" where
  "ExamEditForm_defaultValues exam =
     \<lparr>v_title = e_title exam, v_subject = e_subject exam, v_instructions = e_instructions exam,
      v_questions = map question_values (e_questions exam)\<rparr>"

definition ExamEditForm_init :: "Exam \<Rightarrow> FormState" where
  "ExamEditForm_init exam =
     \<lparr>step = 1, formValues = ExamEditForm_defaultValues exam,
      formErrors = [], sent = [], completed = False\<rparr>"

definition ExamEditForm_fire :: "Exam \<Rightarrow> FormState \<Rightarrow> event \<Rightarrow> FormState" where
  "ExamEditForm_fire exam = fire ExamEditForm_examFormSchema (updateExam (e_id exam))"

text \<open>
  Resubmitting unmodified: the exam is loaded, the user presses \<^verbatim>\<open>Next\<close> twice and
  then \<^verbatim>\<open>Update Exam\<close>; the result is the list of requests sent.
\<close>

definition ExamEditForm_resubmit :: "Exam \<Rightarrow> bool \<Rightarrow> endpoint_call list" where
  "ExamEditForm_resubmit exam ok =
     sent (foldl (ExamEditForm_fire exam) (ExamEditForm_init exam)
             [ClickNext, ClickNext, ClickSubmit ok])"

text \<open>The fields of a question that the update payload carries.\<close>

definition question_fields ::
  "Question \<Rightarrow> jsnum option \<times> string \<times> string \<times> optional_string \<times> jsnum" where
  "question_fields q = (q_id q, q_text q, q_ideal_answer q, q_instructions q, q_mark q)"

definition data_fields ::
  "QuestionData \<Rightarrow> jsnum option \<times> string \<times> string \<times> optional_string \<times> jsnum" where
  "data_fields q = (dq_id q, dq_text q, dq_ideal_answer q, dq_instructions q, dq_mark q)"

section \<open>The submission page (app/submisson/page.tsx)\<close>

text \<open>
  The page keeps the selected file, the drag flag and a message. A handler returns the
  new state and the effects it starts: a console line, a timer with its callback, or a
  request to the backend through an endpoint of the API client.
\<close>

datatype message_type = MsgSuccess | MsgError | MsgInfo

record Message =
  msg_type :: message_type
  msg_text :: string

record PageState =
  selectedFile :: "File option"
  isDragActive :: bool
  message :: "Message option"

datatype effect =
    ConsoleLog string
  | SetTimeout "PageState \<Rightarrow> PageState" nat
  | Request endpoint_call

fun requests_of :: "effect list \<Rightarrow> endpoint_call list" where
  "requests_of [] = []"
| "requests_of (Request c # es) = c # requests_of es"
| "requests_of (ConsoleLog s # es) = requests_of es"
| "requests_of (SetTimeout cb ms # es) = requests_of es"

text \<open>A name between double quotes, as the template strings of the messages print it.\<close>

definition quoted :: "string \<Rightarrow> string" where
  "quoted s = CHR 0x22 # s @ [CHR 0x22]"

text \<open>The test \<^verbatim>\<open>file && file.type === 'application/pdf'\<close>.\<close>

definition is_pdf :: "File option \<Rightarrow> bool" where
  "is_pdf file = (case file of None \<Rightarrow> False | Some f \<Rightarrow> file_type f = ''application/pdf'')"

definition handleFileProcessing :: "File option \<Rightarrow> PageState \<Rightarrow> PageState \<times> effect list" where
  "handleFileProcessing file st =
     (if is_pdf file then
        (st\<lparr>selectedFile := file,
            message := Some \<lparr>msg_type = MsgSuccess,
                             msg_text = quoted (file_name (the file)) @ '' is ready for upload.''\<rparr>\<rparr>,
         [])
      else
        (st\<lparr>selectedFile := None,
            message := Some \<lparr>msg_type = MsgError, msg_text = ''Please upload a PDF file.''\<rparr>\<rparr>,
         []))"

definition handleDragEnter :: "PageState \<Rightarrow> PageState \<times> effect list" where
  "handleDragEnter st = (st\<lparr>isDragActive := True\<rparr>, [])"

definition handleDragLeave :: "PageState \<Rightarrow> PageState \<times> effect list" where
  "handleDragLeave st = (st\<lparr>isDragActive := False\<rparr>, [])"

definition handleDragOver :: "PageState \<Rightarrow> PageState \<times> effect list" where
  "handleDragOver st = (st, [])"

text \<open>A drop hands the first dropped file to the file processing, if there is one.\<close>

definition handleDrop :: "File list \<Rightarrow> PageState \<Rightarrow> PageState \<times> effect list" where
  "handleDrop files st =
     (if length files > 0 then handleFileProcessing (Some (hd files)) (st\<lparr>isDragActive := False\<rparr>)
      else (st\<lparr>isDragActive := False\<rparr>, []))"

text \<open>\<^verbatim>\<open>event.target.files?.[0]\<close>: the first chosen file, or undefined.\<close>

definition handleFileChange :: "File list \<Rightarrow> PageState \<Rightarrow> PageState \<times> effect list" where
  "handleFileChange files st =
     handleFileProcessing (case files of [] \<Rightarrow> None | f # fs \<Rightarrow> Some f) st"

text \<open>The callback of the timer \<^verbatim>\<open>handleSubmit\<close> starts, closed over the file selected then.\<close>

definition upload_simulated :: "File \<Rightarrow> PageState \<Rightarrow> PageState" where
  "upload_simulated f st =
     st\<lparr>message := Some \<lparr>msg_type = MsgSuccess,
                          msg_text = quoted (file_name f) @ '' has been uploaded successfully.''\<rparr>,
        selectedFile := None\<rparr>"

definition SubmissionPage_handleSubmit :: "PageState \<Rightarrow> PageState \<times> effect list" where
  "SubmissionPage_handleSubmit st =
     (case selectedFile st of
        Some f \<Rightarrow>
          (st\<lparr>message := Some \<lparr>msg_type = MsgInfo,
                  msg_text = ''Uploading '' @ quoted (file_name f)
                             @ ''... (This is a placeholder action)''\<rparr>\<rparr>,
           [ConsoleLog (''Submitting file: '' @ file_name f), SetTimeout (upload_simulated f) 2000])
      | None \<Rightarrow>
          (st\<lparr>message := Some \<lparr>msg_type = MsgError,
                                msg_text = ''Please select a PDF file to submit.''\<rparr>\<rparr>,
           []))"

text \<open>Every handler the page attaches to an element.\<close>

datatype page_event =
    DragEnter | DragLeave | DragOver | Drop "File list" | FileChange "File list" | SubmitPdf

fun SubmissionPage_handle :: "page_event \<Rightarrow> PageState \<Rightarrow> PageState \<times> effect list" where
  "SubmissionPage_handle DragEnter st = handleDragEnter st"
| "SubmissionPage_handle DragLeave st = handleDragLeave st"
| "SubmissionPage_handle DragOver st = handleDragOver st"
| "SubmissionPage_handle (Drop files) st = handleDrop files st"
| "SubmissionPage_handle (FileChange files) st = handleFileChange files st"
| "SubmissionPage_handle SubmitPdf st = SubmissionPage_handleSubmit st"

section \<open>Sample inputs\<close>

definition sample_question :: Question where
  "sample_question =
     \<lparr>q_id = Some (Fin 7), q_text = ''What is 2 + 2?'', q_ideal_answer = ''4'',
      q_instructions = Str ''One word.'', q_mark = Fin 5,
      q_created_at = Some ''2025-01-01T00:00:00Z'', q_updated_at = Some ''2025-01-02T00:00:00Z''\<rparr>"

definition sample_exam :: Exam where
  "sample_exam =
     \<lparr>e_id = Fin 3, e_title = ''Arithmetic'', e_subject = ''Mathematics'',
      e_instructions = ''Grade strictly.'', e_questions = [sample_question],
      e_created_at = ''2025-01-01T00:00:00Z'', e_updated_at = ''2025-01-02T00:00:00Z''\<rparr>"

definition sample_exam_no_instructions :: Exam where
  "sample_exam_no_instructions = sample_exam\<lparr>e_instructions := ''''\<rparr>"

definition sample_exam_null_instructions :: Exam where
  "sample_exam_null_instructions =
     sample_exam\<lparr>e_questions := [sample_question\<lparr>q_instructions := Null\<rparr>]\<rparr>"

definition sample_exam_no_questions :: Exam where
  "sample_exam_no_questions = sample_exam\<lparr>e_questions := []\<rparr>"

text \<open>A form that is valid except, possibly, for the mark of its only question.\<close>

definition sample_form :: "jsval \<Rightarrow> FormValues" where
  "sample_form m =
     \<lparr>v_title = ''Arithmetic'', v_subject = ''Mathematics'', v_instructions = ''Grade strictly.'',
      v_questions = [\<lparr>vq_id = None, vq_text = ''What is 2 + 2?'', vq_ideal_answer = ''4'',
                      vq_instructions = Str '''', vq_mark = m,
                      vq_created_at = None, vq_updated_at = None\<rparr>]\<rparr>"

definition sample_data :: "jsnum \<Rightarrow> ExamFormData" where
  "sample_data m =
     \<lparr>d_title = ''Arithmetic'', d_subject = ''Mathematics'', d_instructions = ''Grade strictly.'',
      d_questions = [\<lparr>dq_id = None, dq_text = ''What is 2 + 2?'', dq_ideal_answer = ''4'',
                      dq_instructions = Str '''', dq_mark = m\<rparr>]\<rparr>"

definition sample_step2_no_questions :: FormState where
  "sample_step2_no_questions =
     \<lparr>step = 2, formValues = (sample_form (JNum (Fin 10)))\<lparr>v_questions := []\<rparr>,
      formErrors = [], sent = [], completed = False\<rparr>"

definition sample_text_file :: File where
  "sample_text_file = \<lparr>file_name = ''notes.txt'', file_type = ''text/plain''\<rparr>"

definition sample_pdf_file :: File where
  "sample_pdf_file = \<lparr>file_name = ''answers.pdf'', file_type = ''application/pdf''\<rparr>"

definition sample_page :: "File option \<Rightarrow> PageState" where
  "sample_page file = \<lparr>selectedFile = file, isDragActive = False, message = None\<rparr>"

text \<open>The creation wizard after the details are filled in and \<^verbatim>\<open>Next\<close> is pressed.\<close>

definition sample_details_done :: FormState where
  "sample_details_done =
     foldl ExamCreation_fire ExamCreation_init
       [TypeTitle ''Arithmetic'', TypeSubject ''Mathematics'',
        TypeInstructions ''Grade strictly.'', ClickNext]"

section \<open>Facts about the coercion and the schemas\<close>

lemma StringToNumber_abc: "StringToNumber ''abc'' = NaN"
  by (simp add: StringToNumber_def trim_def strip_leading_def strip_one_def white_space_def radix_prefix_def
      StrUnsignedDecimalLiteral_def is_dec_def dec_digit_def)

lemma mark_refine_abc: "\<not> mark_refine (JStr ''abc'')"
  by (simp add: mark_refine_def StringToNumber_abc isNaN_def)

lemma mark_refine_zero: "\<not> mark_refine (JNum (Fin 0))"
  by (simp add: mark_refine_def isNaN_def)

text \<open>The bit length brackets a positive integer between two powers of two.\<close>

lemma bit_length_bounds:
  "0 < n \<Longrightarrow> 2 ^ bit_length n \<le> 2 * n \<and> n < 2 ^ bit_length n"
proof (induction n rule: bit_length.induct)
  case (1 n)
  show ?case
  proof (cases "n div 2 \<le> 0")
    case True
    with "1.prems" have "n = 1" by linarith
    then show ?thesis by (simp add: bit_length.simps)
  next
    case False
    with "1.IH" "1.prems"
    have ih: "2 ^ bit_length (n div 2) \<le> 2 * (n div 2)" "n div 2 < 2 ^ bit_length (n div 2)"
      by auto
    have bl: "bit_length n = Suc (bit_length (n div 2))"
      using "1.prems" by (subst bit_length.simps) simp
    have "2 * (n div 2) \<le> n" "n < 2 * (n div 2) + 2" by linarith+
    with ih show ?thesis unfolding bl by auto
  qed
qed

lemma bit_length_numeral:
  "bit_length (numeral k) = Suc (bit_length (numeral k div 2))"
  "bit_length 1 = 1"
  "bit_length 0 = 0"
  by (subst bit_length.simps, simp)+

text \<open>Underflow: a positive quotient below half of the smallest positive number is 0.\<close>

lemma round_ratio_underflow:
  assumes "0 < a" and "0 < b" and "a * 2 ^ 1075 < b"
  shows "round_ratio a b = Fin 0"
proof -
  let ?e0 = "int (bit_length a) - int (bit_length b)"
  have "2 ^ bit_length a * (2::int) ^ 1074 \<le> (2 * a) * 2 ^ 1074"
    using bit_length_bounds [OF assms(1)] by (intro mult_right_mono) auto
  also have "\<dots> = a * 2 ^ 1075" by simp
  also have "\<dots> < b" by (rule assms(3))
  also have "\<dots> < 2 ^ bit_length b" using bit_length_bounds [OF assms(2)] by simp
  finally have "(2::int) ^ (bit_length a + 1074) < 2 ^ bit_length b"
    by (simp add: power_add)
  then have "bit_length a + 1074 < bit_length b"
    by (rule power_less_imp_less_exp [rotated]) simp
  then have e0: "?e0 \<le> - 1075" by linarith
  have e: "max (if (if 0 \<le> ?e0 then b * 2 ^ nat ?e0 \<le> a else b \<le> a * 2 ^ nat (- ?e0))
                then ?e0 else ?e0 - 1) (- 1022) = - 1022"
    using e0 by auto
  have small: "a * 2 ^ 1074 < b"
  proof -
    have "a * 2 ^ 1074 \<le> a * 2 ^ 1075" using assms(1) by simp
    with assms(3) show ?thesis by linarith
  qed
  have nonneg: "0 \<le> a * 2 ^ 1074" using assms(1) by simp
  have m: "a * 2 ^ 1074 div b = 0" using small nonneg by (simp add: div_pos_pos_trivial)
  have r: "a * 2 ^ 1074 mod b = a * 2 ^ 1074" using small nonneg by (simp add: mod_pos_pos_trivial)
  have tw: "2 * (a * 2 ^ 1074) < b" using assms(3) by simp
  show ?thesis
    unfolding round_ratio_def Let_def e
    using assms(1) m r tw by simp
qed

text \<open>The coercion at some route parameters and marks.\<close>

lemma StringToNumber_underflow: "StringToNumber ''1e-400'' = Fin 0"
proof -
  have "StringToNumber ''1e-400'' = round_ratio 1 (10 ^ 400)"
    by (simp add: StringToNumber_def trim_def strip_leading_def strip_one_def white_space_def
        radix_prefix_def StrUnsignedDecimalLiteral_def is_dec_def dec_digit_def radix_value_def
        digit_below_def hex_digit_def ExponentPart_def round_decimal_def)
  also have "\<dots> = Fin 0"
    by (rule round_ratio_underflow) simp_all
  finally show ?thesis .
qed

lemma StringToNumber_12: "StringToNumber ''12'' = Fin 12"
  by (simp add: StringToNumber_def trim_def strip_leading_def strip_one_def white_space_def
      radix_prefix_def StrUnsignedDecimalLiteral_def is_dec_def dec_digit_def radix_value_def
      digit_below_def hex_digit_def ExponentPart_def round_decimal_def round_ratio_def
      bit_length_numeral pow2_def Let_def)

lemma StringToNumber_zero: "StringToNumber ''0'' = Fin 0"
  by (simp add: StringToNumber_def trim_def strip_leading_def strip_one_def white_space_def
      radix_prefix_def StrUnsignedDecimalLiteral_def is_dec_def dec_digit_def radix_value_def
      digit_below_def hex_digit_def ExponentPart_def round_decimal_def round_ratio_def)

text \<open>A tie between two binary64 numbers goes to the even one.\<close>

lemma StringToNumber_tie: "StringToNumber ''9007199254740993'' = Fin 9007199254740992"
  by (simp add: StringToNumber_def trim_def strip_leading_def strip_one_def white_space_def
      radix_prefix_def StrUnsignedDecimalLiteral_def is_dec_def dec_digit_def radix_value_def
      digit_below_def hex_digit_def ExponentPart_def round_decimal_def round_ratio_def
      bit_length_numeral pow2_def Let_def)

lemma enumerate_issue_mem:
  "i < length qs \<Longrightarrow> e \<in> set (element i (qs ! i)) \<Longrightarrow>
     e \<in> set (z_array_min n msg p element qs)"
proof -
  assume i: "i < length qs" and e: "e \<in> set (element i (qs ! i))"
  have "(i, qs ! i) \<in> set (enumerate 0 qs)"
    using i by (simp add: in_set_enumerate_eq)
  with e show ?thesis
    unfolding z_array_min_def by (auto intro!: bexI [of _ "(i, qs ! i)"])
qed

text \<open>
  In the creation form a mark that fails the refinement raises the mark issue of its
  question, whatever else the form holds.
\<close>

lemma ExamCreation_bad_mark_issue:
  assumes "i < length (v_questions v)" and "\<not> mark_refine (vq_mark (v_questions v ! i))"
  shows "(P_question i F_mark, ''Mark must be a number and at least 1'')
           \<in> set (ExamCreation_issues v)"
proof -
  have "(P_question i F_mark, ''Mark must be a number and at least 1'')
          \<in> set (ExamCreation_question_issues i (v_questions v ! i))"
    using assms(2) by (simp add: ExamCreation_question_issues_def)
  then have "(P_question i F_mark, ''Mark must be a number and at least 1'')
          \<in> set (z_array_min 1 ''You must add at least one question.'' P_questions
                 ExamCreation_question_issues (v_questions v))"
    using assms(1) by (rule enumerate_issue_mem [rotated])
  then show ?thesis
    by (simp add: ExamCreation_issues_def)
qed

lemma ExamCreation_rejects_bad_mark:
  assumes "i < length (v_questions v)"
    and "vq_mark (v_questions v ! i) = JStr ''abc'' \<or> vq_mark (v_questions v ! i) = JNum (Fin 0)"
  shows "\<exists>es. ExamCreation_examFormSchema v = Inl es
            \<and> (P_question i F_mark, ''Mark must be a number and at least 1'') \<in> set es"
proof -
  have "\<not> mark_refine (vq_mark (v_questions v ! i))"
    using assms(2) mark_refine_abc mark_refine_zero by auto
  from ExamCreation_bad_mark_issue [OF assms(1) this]
  show ?thesis by (auto simp: ExamCreation_examFormSchema_def)
qed

text \<open>The edit form's schema never raises an issue at a mark.\<close>

lemma ExamEditForm_no_mark_issue:
  "(P_question i F_mark, msg) \<notin> set (ExamEditForm_issues v)"
  by (auto simp: ExamEditForm_issues_def z_array_min_def z_string_min_def
      ExamEditForm_question_issues_def z_number_optional_def z_string_optional_def
      in_set_enumerate_eq split: option.splits optional_string.splits if_splits)

lemma resolver_errors_ExamCreation:
  "resolver_errors ExamCreation_examFormSchema v = ExamCreation_issues v"
  by (simp add: resolver_errors_def ExamCreation_examFormSchema_def)

lemma resolver_errors_ExamEditForm:
  "resolver_errors ExamEditForm_examFormSchema v = ExamEditForm_issues v"
  by (simp add: resolver_errors_def ExamEditForm_examFormSchema_def)

lemma questions_issue_when_empty:
  "v_questions v = [] \<Longrightarrow>
     (P_questions, ''You must add at least one question.'') \<in> set (ExamCreation_issues v)"
  by (simp add: ExamCreation_issues_def z_array_min_def)

lemma title_issue:
  "v_title v = '''' \<Longrightarrow> (P_title, ''Title is required'') \<in> set (ExamCreation_issues v)"
  by (simp add: ExamCreation_issues_def z_string_min_def)

lemma subject_issue:
  "v_subject v = '''' \<Longrightarrow> (P_subject, ''Subject is required'') \<in> set (ExamCreation_issues v)"
  by (simp add: ExamCreation_issues_def z_string_min_def)

section \<open>Facts about the form controller\<close>

lemma trigger_frame:
  "formValues (snd (trigger r names st)) = formValues st"
  "sent (snd (trigger r names st)) = sent st"
  "completed (snd (trigger r names st)) = completed st"
  "step (snd (trigger r names st)) = step st"
  by (simp_all add: trigger_def Let_def split: option.splits)

lemma handleNext_frame:
  "formValues (handleNext r st) = formValues st"
  "sent (handleNext r st) = sent st"
  "completed (handleNext r st) = completed st"
  by (simp_all add: handleNext_def Let_def split_beta trigger_frame)

lemma handleNext_step:
  "step (handleNext r st) =
     (if fst (trigger r (if step st = 1 then Some [P_title, P_subject, P_instructions] else None) st)
      then step st + 1 else step st)"
  by (simp add: handleNext_def Let_def split_beta trigger_frame)

lemma handleSubmit_step: "step (handleSubmit r (onSubmit request ok) st) = step st"
  by (simp add: handleSubmit_def onSubmit_def Let_def split: sum.splits)

text \<open>One event moves the step by at most one, and only through \<^verbatim>\<open>Next\<close> or \<^verbatim>\<open>Back\<close>.\<close>

lemma fire_step:
  "step (fire r request st ev) = step st
   \<or> (ev = ClickNext \<and> step st < 3 \<and> step (fire r request st ev) = step st + 1)
   \<or> (ev = ClickBack \<and> step st > 1 \<and> step (fire r request st ev) = step st - 1)"
  by (cases ev) (auto simp: fire_def handleNext_step handleBack_def handleSubmit_step)

lemma reachable_step: "ExamCreation_reachable st \<Longrightarrow> step st \<in> {1, 2, 3}"
proof (induction rule: ExamCreation_reachable.induct)
  case reach_init
  show ?case by (simp add: ExamCreation_init_def)
next
  case (reach_fire st ev)
  from fire_step [of ExamCreation_examFormSchema createExam st ev] reach_fire.IH
  show ?case unfolding ExamCreation_fire_def by auto
qed

lemma reachable_foldl:
  "ExamCreation_reachable st \<Longrightarrow> ExamCreation_reachable (foldl ExamCreation_fire st evs)"
  by (induction evs arbitrary: st) (auto intro: reach_fire)

lemma sample_details_done_eq:
  "sample_details_done =
     \<lparr>step = 2,
      formValues = \<lparr>v_title = ''Arithmetic'', v_subject = ''Mathematics'',
                    v_instructions = ''Grade strictly.'', v_questions = [new_question]\<rparr>,
      formErrors = [], sent = [], completed = False\<rparr>"
  by (simp add: sample_details_done_def ExamCreation_fire_def fire_def ExamCreation_init_def
      handleNext_def trigger_def resolver_errors_ExamCreation ExamCreation_issues_def
      z_string_min_def z_array_min_def ExamCreation_question_issues_def new_question_def
      mark_refine_def isNaN_def z_string_optional_def Let_def)

section \<open>Facts about the edit form\<close>

lemma ExamEditForm_output_fields:
  "d_title (ExamEditForm_output (ExamEditForm_defaultValues exam)) = e_title exam"
  "d_subject (ExamEditForm_output (ExamEditForm_defaultValues exam)) = e_subject exam"
  "d_instructions (ExamEditForm_output (ExamEditForm_defaultValues exam)) = e_instructions exam"
  "map data_fields (d_questions (ExamEditForm_output (ExamEditForm_defaultValues exam)))
     = map question_fields (e_questions exam)"
  by (simp_all add: ExamEditForm_output_def ExamEditForm_defaultValues_def data_fields_def
      question_fields_def ExamEditForm_question_output_def question_values_def)

lemma sample_exam_passes:
  "ExamEditForm_examFormSchema (ExamEditForm_defaultValues sample_exam) =
     Inr \<lparr>d_title = ''Arithmetic'', d_subject = ''Mathematics'',
          d_instructions = ''Grade strictly.'',
          d_questions = [\<lparr>dq_id = Some (Fin 7), dq_text = ''What is 2 + 2?'',
                          dq_ideal_answer = ''4'', dq_instructions = Str ''One word.'',
                          dq_mark = Fin 5\<rparr>]\<rparr>"
  by (simp add: ExamEditForm_examFormSchema_def ExamEditForm_issues_def ExamEditForm_output_def
      ExamEditForm_question_output_def ExamEditForm_question_issues_def
      z_array_min_def z_string_min_def z_number_optional_def z_string_optional_def
      ExamEditForm_defaultValues_def
      sample_exam_def sample_question_def question_values_def)

lemma question_issues_Nil:
  "ExamEditForm_question_issues i (question_values q) = [] \<longleftrightarrow>
       (q_id q \<noteq> Some NaN \<and> q_text q \<noteq> '''' \<and> q_ideal_answer q \<noteq> ''''
        \<and> q_instructions q \<noteq> Null)"
  by (auto simp: ExamEditForm_question_issues_def question_values_def z_number_optional_def
      z_string_optional_def z_string_min_def
      split: option.splits optional_string.splits)

lemma array_issues_Nil:
  "z_array_min 1 msg p ExamEditForm_question_issues (map question_values qs) = [] \<longleftrightarrow>
     qs \<noteq> [] \<and> list_all
          (\<lambda>q. q_id q \<noteq> Some NaN \<and> q_text q \<noteq> '''' \<and> q_ideal_answer q \<noteq> ''''
                   \<and> q_instructions q \<noteq> Null) qs"
proof -
  have "(\<forall>x\<in>set (enumerate 0 (map question_values qs)).
           (case x of (i, y) \<Rightarrow> ExamEditForm_question_issues i y) = [])
        \<longleftrightarrow> (\<forall>q\<in>set qs. q_id q \<noteq> Some NaN \<and> q_text q \<noteq> '''' \<and> q_ideal_answer q \<noteq> ''''
        \<and> q_instructions q \<noteq> Null)"
    (is "?L \<longleftrightarrow> ?R")
  proof
    assume l: ?L
    show ?R
    proof
      fix q assume "q \<in> set qs"
      then obtain i where i: "i < length qs" "qs ! i = q" by (auto simp: in_set_conv_nth)
      then have "(i, question_values q) \<in> set (enumerate 0 (map question_values qs))"
        by (auto simp: in_set_enumerate_eq)
      with l have "ExamEditForm_question_issues i (question_values q) = []" by fastforce
      then show "q_id q \<noteq> Some NaN \<and> q_text q \<noteq> '''' \<and> q_ideal_answer q \<noteq> ''''
        \<and> q_instructions q \<noteq> Null"
        by (simp add: question_issues_Nil)
    qed
  next
    assume r: ?R
    show ?L
    proof
      fix x assume "x \<in> set (enumerate 0 (map question_values qs))"
      then have "fst x < length qs" "snd x = question_values (qs ! fst x)"
        by (auto simp: in_set_enumerate_eq)
      with r show "(case x of (i, y) \<Rightarrow> ExamEditForm_question_issues i y) = []"
        by (cases x) (simp add: question_issues_Nil)
    qed
  qed
  then show ?thesis
    by (auto simp: z_array_min_def list_all_iff)
qed

text \<open>
  Which fetched exams pass the edit form's schema unmodified: title, subject and
  instructions are not empty, there is a question, and every question has a text, an
  ideal answer, instructions that are not null and an identifier that is absent or a
  number.
\<close>

lemma ExamEditForm_issues_Nil:
  "ExamEditForm_issues (ExamEditForm_defaultValues exam) = [] \<longleftrightarrow>
     e_title exam \<noteq> '''' \<and> e_subject exam \<noteq> '''' \<and> e_instructions exam \<noteq> ''''
     \<and> e_questions exam \<noteq> [] \<and> list_all
          (\<lambda>q. q_id q \<noteq> Some NaN \<and> q_text q \<noteq> '''' \<and> q_ideal_answer q \<noteq> ''''
                   \<and> q_instructions q \<noteq> Null) (e_questions exam)"
proof -
  have "ExamEditForm_issues (ExamEditForm_defaultValues exam) = [] \<longleftrightarrow>
       e_title exam \<noteq> '''' \<and> e_subject exam \<noteq> '''' \<and> e_instructions exam \<noteq> ''''
     \<and> z_array_min 1 ''You must add at least one question.'' P_questions
          ExamEditForm_question_issues (map question_values (e_questions exam)) = []"
    by (auto simp: ExamEditForm_issues_def ExamEditForm_defaultValues_def z_string_min_def)
  also have "\<dots> \<longleftrightarrow>
       e_title exam \<noteq> '''' \<and> e_subject exam \<noteq> '''' \<and> e_instructions exam \<noteq> ''''
     \<and> e_questions exam \<noteq> [] \<and> list_all
          (\<lambda>q. q_id q \<noteq> Some NaN \<and> q_text q \<noteq> '''' \<and> q_ideal_answer q \<noteq> ''''
                   \<and> q_instructions q \<noteq> Null) (e_questions exam)"
    unfolding array_issues_Nil by blast
  finally show ?thesis .
qed

lemma ExamEditForm_accepts_iff:
  "(\<exists>d. ExamEditForm_examFormSchema (ExamEditForm_defaultValues exam) = Inr d) \<longleftrightarrow>
     e_title exam \<noteq> '''' \<and> e_subject exam \<noteq> '''' \<and> e_instructions exam \<noteq> ''''
     \<and> e_questions exam \<noteq> [] \<and> list_all
          (\<lambda>q. q_id q \<noteq> Some NaN \<and> q_text q \<noteq> '''' \<and> q_ideal_answer q \<noteq> ''''
                   \<and> q_instructions q \<noteq> Null) (e_questions exam)"
  unfolding ExamEditForm_issues_Nil [symmetric]
  by (simp add: ExamEditForm_examFormSchema_def)

text \<open>
  The run of the unmodified resubmission, in both cases: with no issue the three events
  reach the review step and send the update; with an issue one of the two \<^verbatim>\<open>Next\<close>
  presses fails, the submit button is never on screen, and nothing is sent.
\<close>

lemma resubmit_accepted:
  assumes "ExamEditForm_issues (ExamEditForm_defaultValues exam) = []"
  shows "ExamEditForm_resubmit exam ok =
           [updateExam (e_id exam) (ExamEditForm_output (ExamEditForm_defaultValues exam))]"
  using assms
  by (simp add: ExamEditForm_resubmit_def ExamEditForm_fire_def fire_def ExamEditForm_init_def
      handleNext_def trigger_def handleSubmit_def onSubmit_def resolver_errors_ExamEditForm
      ExamEditForm_examFormSchema_def Let_def)

lemma resubmit_rejected:
  assumes "ExamEditForm_issues (ExamEditForm_defaultValues exam) \<noteq> []"
  shows "ExamEditForm_resubmit exam ok = []"
proof -
  let ?v = "ExamEditForm_defaultValues exam"
  let ?names = "[P_title, P_subject, P_instructions]"
  let ?st0 = "ExamEditForm_init exam"
  let ?st1 = "ExamEditForm_fire exam ?st0 ClickNext"
  let ?st2 = "ExamEditForm_fire exam ?st1 ClickNext"
  have frame: "formValues (ExamEditForm_fire exam st ClickNext) = formValues st"
    "sent (ExamEditForm_fire exam st ClickNext) = sent st"
    "completed (ExamEditForm_fire exam st ClickNext) = completed st" for st
    by (simp_all add: ExamEditForm_fire_def fire_def handleNext_frame)
  have vals: "formValues ?st1 = ?v" "sent ?st1 = []" "\<not> completed ?st1"
    by (simp_all add: frame ExamEditForm_init_def)
  have step1: "step ?st1 = 1 \<or> step ?st1 = 2"
    by (simp add: ExamEditForm_fire_def fire_def ExamEditForm_init_def handleNext_step)
  have step2: "step ?st2 < 3"
  proof (cases "step ?st1 = 1")
    case True
    then have "step ?st2 = 1 \<or> step ?st2 = 2"
      using vals(3) by (simp add: ExamEditForm_fire_def fire_def handleNext_step)
    then show ?thesis by auto
  next
    case False
    with step1 have s: "step ?st1 = 2" by simp
    have "\<not> fst (trigger ExamEditForm_examFormSchema None ?st1)"
      using assms vals(1) by (simp add: trigger_def resolver_errors_ExamEditForm Let_def)
    then have "step ?st2 = 2"
      using s vals(3) by (simp add: ExamEditForm_fire_def fire_def handleNext_step)
    then show ?thesis by simp
  qed
  have "sent ?st2 = []" "\<not> completed ?st2"
    using vals by (simp_all add: frame)
  then have "sent (ExamEditForm_fire exam ?st2 (ClickSubmit ok)) = []"
    using step2 by (simp add: ExamEditForm_fire_def fire_def)
  then show ?thesis
    by (simp add: ExamEditForm_resubmit_def)
qed

section \<open>Facts about the submission page\<close>

lemma page_handlers_send_nothing: "requests_of (snd (SubmissionPage_handle ev st)) = []"
  by (cases ev)
    (simp_all add: handleDragEnter_def handleDragLeave_def handleDragOver_def handleDrop_def
      handleFileChange_def handleFileProcessing_def SubmissionPage_handleSubmit_def
      split: option.splits)

section \<open>The claims\<close>

text \<open>
  C1. A question whose mark is the string \<^verbatim>\<open>"abc"\<close> or the number 0 should fail
  validation with a message at the mark field, in the creation form and in the edit form.
  The creation form's schema does so. The edit form's schema, introduced in the source as
  the same schema as creation, has no refinement on the mark: it accepts both forms and
  puts \<open>NaN\<close>, respectively 0, into the data to be sent.
\<close>

theorem ExamEditForm_accepts_bad_mark:
  "ExamEditForm_examFormSchema (sample_form (JStr ''abc'')) = Inr (sample_data NaN)
   \<and> ExamEditForm_examFormSchema (sample_form (JNum (Fin 0))) = Inr (sample_data (Fin 0))
   \<and> ExamCreation_examFormSchema (sample_form (JStr ''abc''))
       = Inl [(P_question 0 F_mark, ''Mark must be a number and at least 1'')]
   \<and> ExamCreation_examFormSchema (sample_form (JNum (Fin 0)))
       = Inl [(P_question 0 F_mark, ''Mark must be a number and at least 1'')]"
  by (simp add: ExamEditForm_examFormSchema_def ExamEditForm_issues_def ExamEditForm_output_def
      ExamEditForm_question_output_def ExamEditForm_question_issues_def
      ExamCreation_examFormSchema_def ExamCreation_issues_def ExamCreation_question_issues_def
      z_array_min_def z_string_min_def z_number_optional_def z_string_optional_def
      sample_form_def sample_data_def
      mark_refine_abc mark_refine_zero StringToNumber_abc)

text \<open>
  C2. Every exam mutation (create, update, delete) declares invalidation tags that cover
  the list tag, so the cached list of exams, whatever its result, is refetched after the
  mutation; an update of an exam also declares the tag of that exam, so the cached
  single exam of that id is refetched.
\<close>

theorem exam_mutations_invalidate_caches:
  assumes "is_exam_mutation m"
  shows "list_ex (\<lambda>i. tag_matches i (Tag ''Exam'' (StrId ''LIST''))) (invalidatesTags m)
       \<and> invalidated_by (getExams_providesTags result) m
       \<and> Tag ''Exam'' (NumId ident) \<in> set (invalidatesTags (updateExam ident examData))
       \<and> invalidated_by (getExamById_providesTags ident) (updateExam ident examData)"
proof -
  have list_tag:
    "list_ex (\<lambda>i. tag_matches i (Tag ''Exam'' (StrId ''LIST''))) (invalidatesTags m)"
    using assms by (cases m) simp_all
  have "Tag ''Exam'' (StrId ''LIST'') \<in> set (getExams_providesTags result)"
    by (simp add: getExams_providesTags_def split: option.splits)
  with list_tag have "invalidated_by (getExams_providesTags result) m"
    unfolding invalidated_by_def list_ex_iff by blast
  moreover have "invalidated_by (getExamById_providesTags ident) (updateExam ident examData)"
    by (simp add: invalidated_by_def getExamById_providesTags_def)
  ultimately show ?thesis using list_tag by simp
qed

theorem exam_mutations_invalidate_caches_witness:
  "is_exam_mutation (deleteExam (Fin 3))
   \<and> invalidatesTags (deleteExam (Fin 3)) = [Tag ''Exam'' (StrId ''LIST'')]
   \<and> invalidated_by (getExams_providesTags (Some [sample_exam])) (deleteExam (Fin 3))
   \<and> invalidated_by (getExamById_providesTags (Fin 3)) (updateExam (Fin 3) (sample_data (Fin 5)))"
  using exam_mutations_invalidate_caches
    [of "deleteExam (Fin 3)" "Some [sample_exam]" "Fin 3" "sample_data (Fin 5)"]
  by simp

text \<open>
  C3. In every state of the creation wizard at step 2 whose list of questions is empty,
  the schema rejects the form with the at-least-one-question issue, \<^verbatim>\<open>Next\<close> shows that
  issue, leaves the values alone and stays at step 2; and \<^verbatim>\<open>remove\<close> itself does
  empty a list of one question.
\<close>

theorem empty_questions_block_step_2:
  assumes "step st = 2" and "v_questions (formValues st) = []"
  shows "(\<exists>es. ExamCreation_examFormSchema (formValues st) = Inl es
              \<and> (P_questions, ''You must add at least one question.'') \<in> set es)
       \<and> step (ExamCreation_handleNext st) = 2
       \<and> (P_questions, ''You must add at least one question.'')
            \<in> set (formErrors (ExamCreation_handleNext st))
       \<and> formValues (ExamCreation_handleNext st) = formValues st
       \<and> v_questions (remove_question 0 (v\<lparr>v_questions := [q]\<rparr>)) = []"
proof -
  let ?e = "(P_questions, ''You must add at least one question.'')"
  have mem: "?e \<in> set (ExamCreation_issues (formValues st))"
    using assms(2) by (rule questions_issue_when_empty)
  then have ne: "ExamCreation_issues (formValues st) \<noteq> []" by auto
  have schema: "\<exists>es. ExamCreation_examFormSchema (formValues st) = Inl es \<and> ?e \<in> set es"
    using mem ne by (simp add: ExamCreation_examFormSchema_def)
  have next_state:
    "ExamCreation_handleNext st = st\<lparr>formErrors := ExamCreation_issues (formValues st)\<rparr>"
    using assms(1) ne
    by (simp add: ExamCreation_handleNext_def handleNext_def trigger_def
        resolver_errors_ExamCreation Let_def)
  show ?thesis
    using schema mem assms(1) by (simp add: next_state remove_question_def)
qed

theorem empty_questions_block_step_2_witness:
  "step sample_step2_no_questions = 2
   \<and> v_questions (formValues sample_step2_no_questions) = []
   \<and> step (ExamCreation_handleNext sample_step2_no_questions) = 2
   \<and> (P_questions, ''You must add at least one question.'')
        \<in> set (formErrors (ExamCreation_handleNext sample_step2_no_questions))"
proof -
  have h1: "step sample_step2_no_questions = 2"
    and h2: "v_questions (formValues sample_step2_no_questions) = []"
    by (simp_all add: sample_step2_no_questions_def)
  from empty_questions_block_step_2 [OF h1 h2] h1 h2 show ?thesis by blast
qed

text \<open>
  C4. In every state of the creation wizard at step 1 whose title or subject is the
  empty string, \<^verbatim>\<open>Next\<close> stays at step 1, shows the required-field message of each
  empty field, and changes neither the values nor the requests sent nor the completion
  flag. The errors shown afterwards are the earlier ones of the fields other than title,
  subject and instructions, followed by the schema's issues for these three.
\<close>

theorem empty_title_or_subject_blocks_step_1:
  assumes "step st = 1"
    and "v_title (formValues st) = '''' \<or> v_subject (formValues st) = ''''"
  shows "step (ExamCreation_handleNext st) = 1
       \<and> formValues (ExamCreation_handleNext st) = formValues st
       \<and> sent (ExamCreation_handleNext st) = sent st
       \<and> completed (ExamCreation_handleNext st) = completed st
       \<and> (v_title (formValues st) = '''' \<longrightarrow>
            (P_title, ''Title is required'') \<in> set (formErrors (ExamCreation_handleNext st)))
       \<and> (v_subject (formValues st) = '''' \<longrightarrow>
            (P_subject, ''Subject is required'') \<in> set (formErrors (ExamCreation_handleNext st)))
       \<and> formErrors (ExamCreation_handleNext st) =
            filter (\<lambda>e. fst e \<notin> set [P_title, P_subject, P_instructions]) (formErrors st)
            @ filter (\<lambda>e. fst e \<in> set [P_title, P_subject, P_instructions])
                (ExamCreation_issues (formValues st))"
proof -
  let ?names = "[P_title, P_subject, P_instructions]"
  let ?errs = "ExamCreation_issues (formValues st)"
  have named: "filter (\<lambda>e. fst e \<in> set ?names) ?errs \<noteq> []"
  proof -
    from assms(2) obtain e where "e \<in> set ?errs" and "fst e \<in> set ?names"
      using title_issue subject_issue by fastforce
    then have "e \<in> set (filter (\<lambda>e. fst e \<in> set ?names) ?errs)" by simp
    then show ?thesis by (metis empty_iff empty_set)
  qed
  have next_state: "ExamCreation_handleNext st =
      st\<lparr>formErrors := filter (\<lambda>e. fst e \<notin> set ?names) (formErrors st)
                          @ filter (\<lambda>e. fst e \<in> set ?names) ?errs\<rparr>"
    using assms(1) named
    by (simp add: ExamCreation_handleNext_def handleNext_def trigger_def
        resolver_errors_ExamCreation Let_def)
  show ?thesis
    using assms(1) title_issue [of "formValues st"] subject_issue [of "formValues st"]
    by (simp add: next_state)
qed

theorem empty_title_or_subject_blocks_step_1_witness:
  "step ExamCreation_init = 1
   \<and> v_title (formValues ExamCreation_init) = ''''
   \<and> v_subject (formValues ExamCreation_init) = ''''
   \<and> step (ExamCreation_handleNext ExamCreation_init) = 1
   \<and> (P_title, ''Title is required'') \<in> set (formErrors (ExamCreation_handleNext ExamCreation_init))
   \<and> (P_subject, ''Subject is required'')
        \<in> set (formErrors (ExamCreation_handleNext ExamCreation_init))"
proof -
  have h1: "step ExamCreation_init = 1"
    and h2: "v_title (formValues ExamCreation_init) = ''''"
    and h3: "v_subject (formValues ExamCreation_init) = ''''"
    by (simp_all add: ExamCreation_init_def)
  from h2 have h4: "v_title (formValues ExamCreation_init) = ''''
      \<or> v_subject (formValues ExamCreation_init) = ''''" ..
  from empty_title_or_subject_blocks_step_1 [OF h1 h4] h1 h2 h3 show ?thesis by blast
qed

text \<open>
  C5. In every state the creation wizard reaches from its initial state by user events,
  the step is 1, 2 or 3 and stays so after the next event. An event leaves the step as it
  is, or it is \<^verbatim>\<open>Next\<close> and adds one, or it is \<^verbatim>\<open>Back\<close> and subtracts one:
  \<^verbatim>\<open>handleBack\<close> subtracts exactly one, \<^verbatim>\<open>handleNext\<close> adds exactly one or, when
  validation fails, nothing, and submitting does not change the step.
\<close>

theorem wizard_step_invariant:
  assumes "ExamCreation_reachable st"
  shows "step st \<in> {1, 2, 3}
       \<and> step (ExamCreation_fire st ev) \<in> {1, 2, 3}
       \<and> (step (ExamCreation_fire st ev) = step st
          \<or> (ev = ClickNext \<and> step (ExamCreation_fire st ev) = step st + 1)
          \<or> (ev = ClickBack \<and> step (ExamCreation_fire st ev) = step st - 1))
       \<and> step (handleBack st) = step st - 1
       \<and> (step (ExamCreation_handleNext st) = step st
          \<or> step (ExamCreation_handleNext st) = step st + 1)
       \<and> step (ExamCreation_fire st (ClickSubmit ok)) = step st"
proof -
  have a: "step st \<in> {1, 2, 3}"
    using assms by (rule reachable_step)
  have "ExamCreation_reachable (ExamCreation_fire st ev)"
    using assms by (rule reach_fire)
  then have b: "step (ExamCreation_fire st ev) \<in> {1, 2, 3}"
    by (rule reachable_step)
  have c: "step (ExamCreation_fire st ev) = step st
          \<or> (ev = ClickNext \<and> step (ExamCreation_fire st ev) = step st + 1)
          \<or> (ev = ClickBack \<and> step (ExamCreation_fire st ev) = step st - 1)"
    using fire_step [of ExamCreation_examFormSchema createExam st ev]
    unfolding ExamCreation_fire_def by blast
  have d: "step (handleBack st) = step st - 1"
    by (simp add: handleBack_def)
  have e: "step (ExamCreation_handleNext st) = step st
          \<or> step (ExamCreation_handleNext st) = step st + 1"
    by (simp add: ExamCreation_handleNext_def handleNext_step)
  have f: "step (ExamCreation_fire st (ClickSubmit ok)) = step st"
    by (simp add: ExamCreation_fire_def fire_def handleSubmit_step)
  from a b c d e f show ?thesis by blast
qed

theorem wizard_step_invariant_witness:
  "ExamCreation_reachable sample_details_done
   \<and> step sample_details_done = 2
   \<and> step (ExamCreation_fire sample_details_done ClickBack) = 1
   \<and> step (ExamCreation_fire sample_details_done ClickNext) = 2"
proof -
  have h: "ExamCreation_reachable sample_details_done"
    unfolding sample_details_done_def by (rule reachable_foldl) (rule reach_init)
  have s: "step sample_details_done = 2"
    by (simp add: sample_details_done_eq)
  have prev: "step (ExamCreation_fire sample_details_done ClickBack) = 1"
    using wizard_step_invariant [OF h, of ClickBack True]
    by (simp add: sample_details_done_eq ExamCreation_fire_def fire_def handleBack_def)
  have nxt: "step (ExamCreation_fire sample_details_done ClickNext) = 2"
    by (simp add: sample_details_done_eq ExamCreation_fire_def fire_def
      handleNext_def trigger_def resolver_errors_ExamCreation ExamCreation_issues_def
      z_string_min_def z_array_min_def ExamCreation_question_issues_def new_question_def
      mark_refine_def isNaN_def z_string_optional_def Let_def)
  from h s prev nxt show ?thesis by blast
qed

text \<open>
  C6 as stated fails: a fetched exam with a question whose instructions are null, one
  without questions, or one whose instructions are empty, is loaded into the edit form,
  validation stops the wizard before the review step, and no update request is sent, so
  there is no payload to compare.
\<close>

theorem resubmit_without_request_counterexample:
  "ExamEditForm_resubmit sample_exam_null_instructions True = []
   \<and> ExamEditForm_resubmit sample_exam_no_questions True = []
   \<and> ExamEditForm_resubmit sample_exam_no_instructions True = []"
proof -
  have "ExamEditForm_issues (ExamEditForm_defaultValues sample_exam_null_instructions) \<noteq> []"
    and "ExamEditForm_issues (ExamEditForm_defaultValues sample_exam_no_questions) \<noteq> []"
    and "ExamEditForm_issues (ExamEditForm_defaultValues sample_exam_no_instructions) \<noteq> []"
    by (simp_all add: ExamEditForm_issues_Nil sample_exam_null_instructions_def
        sample_exam_no_questions_def sample_exam_no_instructions_def sample_exam_def
        sample_question_def)
  then show ?thesis by (simp add: resubmit_rejected)
qed

text \<open>
  C6, amended. A fetched exam passes the edit form's schema when its title, subject and
  instructions are not empty, it has a question, and every question has a text and an
  ideal answer that are not empty, instructions that are not null, and an id that is
  absent or a number. For every such exam, loading it into the edit form and submitting
  it unmodified sends exactly one update request, for the exam's id, whose payload is the
  schema's output and has the title, subject and instructions of the exam and, question
  by question, its id, text, ideal answer, instructions and mark. For every other exam
  the schema reports issues and no update request is sent.
\<close>

theorem resubmit_roundtrip:
  "if e_title exam \<noteq> '''' \<and> e_subject exam \<noteq> '''' \<and> e_instructions exam \<noteq> ''''
      \<and> e_questions exam \<noteq> []
      \<and> list_all (\<lambda>q. q_id q \<noteq> Some NaN \<and> q_text q \<noteq> '''' \<and> q_ideal_answer q \<noteq> ''''
                        \<and> q_instructions q \<noteq> Null) (e_questions exam)
   then \<exists>d. ExamEditForm_examFormSchema (ExamEditForm_defaultValues exam) = Inr d
          \<and> ExamEditForm_resubmit exam ok = [updateExam (e_id exam) d]
          \<and> d_title d = e_title exam
          \<and> d_subject d = e_subject exam
          \<and> d_instructions d = e_instructions exam
          \<and> map data_fields (d_questions d) = map question_fields (e_questions exam)
   else (\<exists>es. ExamEditForm_examFormSchema (ExamEditForm_defaultValues exam) = Inl es)
        \<and> ExamEditForm_resubmit exam ok = []"
proof (cases "ExamEditForm_issues (ExamEditForm_defaultValues exam) = []")
  case True
  let ?d = "ExamEditForm_output (ExamEditForm_defaultValues exam)"
  have "ExamEditForm_examFormSchema (ExamEditForm_defaultValues exam) = Inr ?d"
    using True by (simp add: ExamEditForm_examFormSchema_def)
  moreover have "ExamEditForm_resubmit exam ok = [updateExam (e_id exam) ?d]"
    using True by (rule resubmit_accepted)
  ultimately have "\<exists>d. ExamEditForm_examFormSchema (ExamEditForm_defaultValues exam) = Inr d
          \<and> ExamEditForm_resubmit exam ok = [updateExam (e_id exam) d]
          \<and> d_title d = e_title exam
          \<and> d_subject d = e_subject exam
          \<and> d_instructions d = e_instructions exam
          \<and> map data_fields (d_questions d) = map question_fields (e_questions exam)"
    by (simp add: ExamEditForm_output_fields)
  then show ?thesis
    using True unfolding ExamEditForm_issues_Nil by simp
next
  case False
  have "\<exists>es. ExamEditForm_examFormSchema (ExamEditForm_defaultValues exam) = Inl es"
    using False by (simp add: ExamEditForm_examFormSchema_def)
  moreover have "ExamEditForm_resubmit exam ok = []"
    using False by (rule resubmit_rejected)
  ultimately show ?thesis
    using False unfolding ExamEditForm_issues_Nil by simp
qed

theorem resubmit_roundtrip_witness:
  "ExamEditForm_resubmit sample_exam True =
     [updateExam (Fin 3)
        \<lparr>d_title = ''Arithmetic'', d_subject = ''Mathematics'',
          d_instructions = ''Grade strictly.'',
          d_questions = [\<lparr>dq_id = Some (Fin 7), dq_text = ''What is 2 + 2?'',
                          dq_ideal_answer = ''4'', dq_instructions = Str ''One word.'',
                          dq_mark = Fin 5\<rparr>]\<rparr>]
   \<and> ExamEditForm_resubmit sample_exam_null_instructions False = []"
proof -
  have passes: "e_title sample_exam \<noteq> '''' \<and> e_subject sample_exam \<noteq> ''''
      \<and> e_instructions sample_exam \<noteq> '''' \<and> e_questions sample_exam \<noteq> []
      \<and> list_all (\<lambda>q. q_id q \<noteq> Some NaN \<and> q_text q \<noteq> '''' \<and> q_ideal_answer q \<noteq> ''''
                        \<and> q_instructions q \<noteq> Null) (e_questions sample_exam)"
    by (simp add: sample_exam_def sample_question_def)
  from resubmit_roundtrip [of sample_exam True]
  obtain d where d: "ExamEditForm_examFormSchema (ExamEditForm_defaultValues sample_exam) = Inr d"
    and r: "ExamEditForm_resubmit sample_exam True = [updateExam (e_id sample_exam) d]"
    unfolding if_P [OF passes] by blast
  from d have "d = \<lparr>d_title = ''Arithmetic'', d_subject = ''Mathematics'',
          d_instructions = ''Grade strictly.'',
          d_questions = [\<lparr>dq_id = Some (Fin 7), dq_text = ''What is 2 + 2?'',
                          dq_ideal_answer = ''4'', dq_instructions = Str ''One word.'',
                          dq_mark = Fin 5\<rparr>]\<rparr>"
    by (simp add: sample_exam_passes)
  with r have a: "ExamEditForm_resubmit sample_exam True =
     [updateExam (Fin 3)
        \<lparr>d_title = ''Arithmetic'', d_subject = ''Mathematics'',
          d_instructions = ''Grade strictly.'',
          d_questions = [\<lparr>dq_id = Some (Fin 7), dq_text = ''What is 2 + 2?'',
                          dq_ideal_answer = ''4'', dq_instructions = Str ''One word.'',
                          dq_mark = Fin 5\<rparr>]\<rparr>]"
    by (simp add: sample_exam_def)
  have fails: "\<not> (e_title sample_exam_null_instructions \<noteq> ''''
      \<and> e_subject sample_exam_null_instructions \<noteq> ''''
      \<and> e_instructions sample_exam_null_instructions \<noteq> ''''
      \<and> e_questions sample_exam_null_instructions \<noteq> []
      \<and> list_all (\<lambda>q. q_id q \<noteq> Some NaN \<and> q_text q \<noteq> '''' \<and> q_ideal_answer q \<noteq> ''''
                        \<and> q_instructions q \<noteq> Null) (e_questions sample_exam_null_instructions))"
    by (simp add: sample_exam_null_instructions_def sample_exam_def sample_question_def)
  from resubmit_roundtrip [of sample_exam_null_instructions False]
  have b: "ExamEditForm_resubmit sample_exam_null_instructions False = []"
    unfolding if_not_P [OF fails] by blast
  from a b show ?thesis by blast
qed

text \<open>
  C7. For every file whose type is not \<^verbatim>\<open>application/pdf\<close>, the file processing,
  reached from the file input or from a drop, clears the selected file and sets the error
  message asking for a PDF; neither it nor a submit pressed afterwards sends a request.
\<close>

theorem non_pdf_rejected:
  assumes "file_type f \<noteq> ''application/pdf''"
  shows "handleFileProcessing (Some f) st =
           (st\<lparr>selectedFile := None,
               message := Some \<lparr>msg_type = MsgError, msg_text = ''Please upload a PDF file.''\<rparr>\<rparr>,
            [])
       \<and> handleFileChange (f # fs) st = handleFileProcessing (Some f) st
       \<and> handleDrop (f # fs) st = handleFileProcessing (Some f) (st\<lparr>isDragActive := False\<rparr>)
       \<and> requests_of (snd (handleFileProcessing (Some f) st)) = []
       \<and> requests_of (snd (SubmissionPage_handleSubmit (fst (handleFileProcessing (Some f) st))))
           = []"
  using assms
  by (simp add: handleFileProcessing_def is_pdf_def handleFileChange_def handleDrop_def
      SubmissionPage_handleSubmit_def)

theorem non_pdf_rejected_witness:
  "file_type sample_text_file \<noteq> ''application/pdf''
   \<and> handleFileProcessing (Some sample_text_file) (sample_page (Some sample_pdf_file)) =
       (\<lparr>selectedFile = None, isDragActive = False,
         message = Some \<lparr>msg_type = MsgError, msg_text = ''Please upload a PDF file.''\<rparr>\<rparr>, [])
   \<and> requests_of (snd (SubmissionPage_handleSubmit
        (fst (handleFileProcessing (Some sample_text_file) (sample_page (Some sample_pdf_file))))))
       = []"
proof -
  have h: "file_type sample_text_file \<noteq> ''application/pdf''"
    by (simp add: sample_text_file_def)
  note t = non_pdf_rejected [OF h, of "sample_page (Some sample_pdf_file)" "[]"]
  from t have a:
    "handleFileProcessing (Some sample_text_file) (sample_page (Some sample_pdf_file)) =
       (\<lparr>selectedFile = None, isDragActive = False,
         message = Some \<lparr>msg_type = MsgError, msg_text = ''Please upload a PDF file.''\<rparr>\<rparr>, [])"
    by (simp add: sample_page_def)
  from t have b: "requests_of (snd (SubmissionPage_handleSubmit
        (fst (handleFileProcessing (Some sample_text_file) (sample_page (Some sample_pdf_file))))))
       = []"
    by blast
  from h a b show ?thesis by blast
qed

text \<open>
  C8. On the exam detail page and on the exam edit page the query for one exam is
  skipped when the route parameter coerces to \<open>NaN\<close> or to 0, and otherwise it is issued
  with the coerced number: the hook called with a number \<open>n\<close> and \<^verbatim>\<open>skip: !n\<close> issues
  nothing exactly for \<open>NaN\<close> and 0.
\<close>

theorem retrieve_query_skipped_on_invalid_id:
  "(Number (param_value p) = NaN \<or> Number (param_value p) = Fin 0 \<longrightarrow>
      ExamDetailPage_query p = None \<and> EditExamPage_query p = None)
   \<and> (Number (param_value p) \<noteq> NaN \<and> Number (param_value p) \<noteq> Fin 0 \<longrightarrow>
      ExamDetailPage_query p = Some (getExamById (Number (param_value p)))
      \<and> EditExamPage_query p = Some (getExamById (Number (param_value p))))
   \<and> useGetExamByIdQuery n (js_not n) =
       (if n = NaN \<or> n = Fin 0 then None else Some (getExamById n))"
  by (simp add: ExamDetailPage_query_def EditExamPage_query_def useGetExamByIdQuery_def
      js_not_def Let_def)

theorem retrieve_query_skipped_on_invalid_id_witness:
  "ExamDetailPage_query (Some ''1e-400'') = None
   \<and> EditExamPage_query (Some ''1e-400'') = None
   \<and> ExamDetailPage_query (Some ''abc'') = None
   \<and> EditExamPage_query (Some ''0'') = None
   \<and> EditExamPage_query None = None
   \<and> ExamDetailPage_query (Some ''12'') = Some (getExamById (Fin 12))
   \<and> EditExamPage_query (Some ''9007199254740993'') = Some (getExamById (Fin 9007199254740992))"
proof -
  have a: "ExamDetailPage_query (Some ''1e-400'') = None"
    and b: "EditExamPage_query (Some ''1e-400'') = None"
    using retrieve_query_skipped_on_invalid_id [of "Some ''1e-400''"]
    by (simp_all add: param_value_def StringToNumber_underflow)
  have c: "ExamDetailPage_query (Some ''abc'') = None"
    using retrieve_query_skipped_on_invalid_id [of "Some ''abc''"]
    by (simp add: param_value_def StringToNumber_abc)
  have d: "EditExamPage_query (Some ''0'') = None"
    using retrieve_query_skipped_on_invalid_id [of "Some ''0''"]
    by (simp add: param_value_def StringToNumber_zero)
  have e: "EditExamPage_query None = None"
    using retrieve_query_skipped_on_invalid_id [of None]
    by (simp add: param_value_def)
  have f: "ExamDetailPage_query (Some ''12'') = Some (getExamById (Fin 12))"
    using retrieve_query_skipped_on_invalid_id [of "Some ''12''"]
    by (simp add: param_value_def StringToNumber_12)
  have g: "EditExamPage_query (Some ''9007199254740993'')
             = Some (getExamById (Fin 9007199254740992))"
    using retrieve_query_skipped_on_invalid_id [of "Some ''9007199254740993''"]
    by (simp add: param_value_def StringToNumber_tie)
  from a b c d e f g show ?thesis by blast
qed

text \<open>
  C9. With a file selected, the submit handler of the submission page only sets the
  info message, writes a console line and starts a timer of 2000 ms; the timer's
  callback only sets the success message and clears the selection. The handler sends no
  request, and no handler of the page does.
\<close>

theorem submit_sends_no_request:
  assumes "selectedFile st = Some f"
  shows "SubmissionPage_handleSubmit st =
           (st\<lparr>message := Some \<lparr>msg_type = MsgInfo,
                  msg_text = ''Uploading '' @ quoted (file_name f)
                             @ ''... (This is a placeholder action)''\<rparr>\<rparr>,
            [ConsoleLog (''Submitting file: '' @ file_name f), SetTimeout (upload_simulated f) 2000])
       \<and> requests_of (snd (SubmissionPage_handleSubmit st)) = []
       \<and> upload_simulated f st' =
           st'\<lparr>message := Some \<lparr>msg_type = MsgSuccess,
                   msg_text = quoted (file_name f) @ '' has been uploaded successfully.''\<rparr>,
               selectedFile := None\<rparr>
       \<and> requests_of (snd (SubmissionPage_handle ev st')) = []"
  using assms
  by (simp add: SubmissionPage_handleSubmit_def upload_simulated_def page_handlers_send_nothing)

theorem submit_sends_no_request_witness:
  "selectedFile (sample_page (Some sample_pdf_file)) = Some sample_pdf_file
   \<and> requests_of (snd (SubmissionPage_handleSubmit (sample_page (Some sample_pdf_file)))) = []
   \<and> selectedFile (upload_simulated sample_pdf_file
        (fst (SubmissionPage_handleSubmit (sample_page (Some sample_pdf_file))))) = None"
proof -
  have h: "selectedFile (sample_page (Some sample_pdf_file)) = Some sample_pdf_file"
    by (simp add: sample_page_def)
  note t = submit_sends_no_request [OF h,
      of "fst (SubmissionPage_handleSubmit (sample_page (Some sample_pdf_file)))" SubmitPdf]
  from t have a:
    "requests_of (snd (SubmissionPage_handleSubmit (sample_page (Some sample_pdf_file)))) = []"
    by blast
  from t have "upload_simulated sample_pdf_file
        (fst (SubmissionPage_handleSubmit (sample_page (Some sample_pdf_file)))) =
      (fst (SubmissionPage_handleSubmit (sample_page (Some sample_pdf_file))))
         \<lparr>message := Some \<lparr>msg_type = MsgSuccess,
                   msg_text = quoted (file_name sample_pdf_file)
                              @ '' has been uploaded successfully.''\<rparr>,
               selectedFile := None\<rparr>"
    by blast
  then have b: "selectedFile (upload_simulated sample_pdf_file
        (fst (SubmissionPage_handleSubmit (sample_page (Some sample_pdf_file))))) = None"
    by simp
  from h a b show ?thesis by blast
qed

text \<open>
  C10. For every id, the delete mutation declares the list tag as its only invalidation
  tag; the tag of the deleted exam is not among them, and the cached single exam of that
  id is not invalidated by the delete.
\<close>

theorem delete_invalidates_only_list:
  "invalidatesTags (deleteExam ident) = [Tag ''Exam'' (StrId ''LIST'')]
   \<and> Tag ''Exam'' (NumId ident) \<notin> set (invalidatesTags (deleteExam ident))
   \<and> \<not> invalidated_by (getExamById_providesTags ident) (deleteExam ident)"
  by (simp add: invalidated_by_def getExamById_providesTags_def)

end
